theory Spec2Isabelle
  imports Complex_Main "HOL-Library.Log_Nat"
begin

section \<open>Numbers\<close>

text \<open>
  A JavaScript \<^verbatim>\<open>number\<close> is an IEEE 754 double: a finite value, \<^verbatim>\<open>NaN\<close>, or one of the two
  infinities. A finite value is carried by the rational it denotes (every double is a rational; the
  two zeros, which \<^verbatim>\<open>===\<close> and \<^verbatim>\<open>JSON.stringify\<close> do not tell apart, are one value). The
  \<^verbatim>\<open>+\<close> of the source adds exactly and rounds the sum to the nearest double, ties to the even
  significand, with 53 bits of significand, the least exponent \<open>-1022\<close> and overflow to infinity
  from \<open>2^1024\<close>.
\<close>

datatype number = Finite rat | NaN | PosInfinity | NegInfinity

text \<open>The exponent of a positive rational: \<open>2 powi expo x \<le> x < 2 powi (expo x + 1)\<close>.\<close>

definition expo :: "rat \<Rightarrow> int" where
  "expo x =
     (let (p, q) = quotient_of x; e0 = bitlen p - bitlen q
      in if 2 powi e0 \<le> x then e0 else e0 - 1)"

definition roundHalfEven :: "rat \<Rightarrow> int" where
  "roundHalfEven m =
     (let f = \<lfloor>m\<rfloor>; d = m - of_int f
      in if d < 1 / 2 then f else if 1 / 2 < d then f + 1 else if even f then f else f + 1)"

definition roundToDouble :: "rat \<Rightarrow> number" where
  "roundToDouble x =
     (if x = 0 then Finite 0
      else
        (let a = \<bar>x\<bar>;
             e = max (expo a) (- 1022);
             q = 2 powi (e - 52);
             r = of_int (roundHalfEven (a / q)) * q
         in if 2 powi 1024 \<le> r then (if 0 < x then PosInfinity else NegInfinity)
            else Finite (if 0 < x then r else - r)))"

fun jsPlus :: "number \<Rightarrow> number \<Rightarrow> number" where
  "jsPlus NaN y = NaN"
| "jsPlus x NaN = NaN"
| "jsPlus PosInfinity NegInfinity = NaN"
| "jsPlus NegInfinity PosInfinity = NaN"
| "jsPlus PosInfinity y = PosInfinity"
| "jsPlus NegInfinity y = NegInfinity"
| "jsPlus x PosInfinity = PosInfinity"
| "jsPlus x NegInfinity = NegInfinity"
| "jsPlus (Finite a) (Finite b) = roundToDouble (a + b)"

text \<open>\<^verbatim>\<open>n >= 1\<close>: false for \<^verbatim>\<open>NaN\<close>.\<close>

fun atLeastOne :: "number \<Rightarrow> bool" where
  "atLeastOne (Finite r) = (1 \<le> r)"
| "atLeastOne PosInfinity = True"
| "atLeastOne NaN = False"
| "atLeastOne NegInfinity = False"


section \<open>Data model\<close>

text \<open>
  The cart line item of \<^verbatim>\<open>types.ts\<close> / \<^verbatim>\<open>CartContext.tsx\<close>:
  \<^verbatim>\<open>type CartItem = { id: string; name: string; price: number; quantity: number; imageUrl?: string }\<close>.
  The field \<^verbatim>\<open>id\<close> is written \<open>id'\<close> (the name \<open>id\<close> is the identity function
  of HOL). The optional \<^verbatim>\<open>imageUrl\<close> is an \<open>option\<close>.
\<close>

record CartItem =
  id' :: string
  name :: string
  price :: number
  quantity :: number
  imageUrl :: "string option"

text \<open>
  The state the provider component holds: the two \<^verbatim>\<open>useState\<close> cells and the browser's
  \<^verbatim>\<open>localStorage\<close>, a map from keys to strings that the hooks read and write.
\<close>

record cart_state =
  items :: "CartItem list"
  isLoading :: bool
  localStorage :: "string \<rightharpoonup> string"

definition CART_STORAGE_KEY :: string where
  "CART_STORAGE_KEY = ''ec-cart-items''"

definition CART_TIMESTAMP_KEY :: string where
  "CART_TIMESTAMP_KEY = ''ec-cart-timestamp''"

definition CART_EXPIRY_HOURS :: nat where
  "CART_EXPIRY_HOURS = 24"

section \<open>The state updaters of \<^verbatim>\<open>useCartOperations\<close>\<close>

text \<open>
  \<^verbatim>\<open>
  setItems((prevItems) => {
      const existingItem = prevItems.find((i) => i.id === item.id);
      if (existingItem) {
          return prevItems.map((i) =>
              i.id === item.id ? { ...i, quantity: i.quantity + item.quantity } : i);
      }
      return [...prevItems, item];
  });
  \<close>
  An object is truthy, so \<^verbatim>\<open>if (existingItem)\<close> asks whether \<^verbatim>\<open>find\<close> found an entry.
\<close>

definition addToCart_updater :: "CartItem \<Rightarrow> CartItem list \<Rightarrow> CartItem list" where
  "addToCart_updater item prevItems =
     (case find (\<lambda>i. id' i = id' item) prevItems of
        Some existingItem \<Rightarrow>
          map (\<lambda>i. if id' i = id' item then i\<lparr>quantity := jsPlus (quantity i) (quantity item)\<rparr> else i)
            prevItems
      | None \<Rightarrow> prevItems @ [item])"

definition addToCart :: "CartItem \<Rightarrow> cart_state \<Rightarrow> cart_state" where
  "addToCart item s = s\<lparr>items := addToCart_updater item (items s)\<rparr>"

text \<open>
  \<^verbatim>\<open>
  setItems((prevItems) => {
      const newItems = prevItems.filter((item) => item.id !== id);
      if (newItems.length === 0) {
          localStorage.removeItem('ec-cart-items');
          localStorage.removeItem('ec-cart-timestamp');
      }
      return newItems;
  });
  \<close>
\<close>

definition removeItem :: "string \<Rightarrow> (string \<rightharpoonup> string) \<Rightarrow> (string \<rightharpoonup> string)" where
  "removeItem k st = st(k := None)"

definition setItem :: "string \<Rightarrow> string \<Rightarrow> (string \<rightharpoonup> string) \<Rightarrow> (string \<rightharpoonup> string)" where
  "setItem k v st = st(k \<mapsto> v)"

definition removeFromCart :: "string \<Rightarrow> cart_state \<Rightarrow> cart_state" where
  "removeFromCart x s =
     (let newItems = filter (\<lambda>item. id' item \<noteq> x) (items s) in
      if length newItems = 0
      then s\<lparr>items := newItems,
             localStorage := removeItem ''ec-cart-timestamp'' (removeItem ''ec-cart-items'' (localStorage s))\<rparr>
      else s\<lparr>items := newItems\<rparr>)"

text \<open>
  \<^verbatim>\<open>
  setItems((prevItems) =>
      prevItems.map((item) => item.id === itemId ? { ...item, quantity } : item));
  \<close>
\<close>

definition updateQuantity :: "string \<Rightarrow> number \<Rightarrow> cart_state \<Rightarrow> cart_state" where
  "updateQuantity itemId q s =
     s\<lparr>items := map (\<lambda>item. if id' item = itemId then item\<lparr>quantity := q\<rparr> else item) (items s)\<rparr>"

text \<open>
  \<^verbatim>\<open>
  const clearCart = () => {
      setItems([]);
      localStorage.removeItem('ec-cart-items');
      localStorage.removeItem('ec-cart-timestamp');
  };
  \<close>
\<close>

definition clearCart :: "cart_state \<Rightarrow> cart_state" where
  "clearCart s =
     s\<lparr>items := [],
       localStorage := removeItem ''ec-cart-timestamp'' (removeItem ''ec-cart-items'' (localStorage s))\<rparr>"

text \<open>
  The older single-file provider \<^verbatim>\<open>CartContext.tsx\<close> has the same \<^verbatim>\<open>addToCart\<close> and
  \<^verbatim>\<open>clearCart\<close>, no \<^verbatim>\<open>updateQuantity\<close>, and a \<^verbatim>\<open>removeFromCart\<close> whose updater calls
  \<^verbatim>\<open>clearCart()\<close> when the filtered list is empty and then returns the filtered list.
\<close>

definition removeFromCart_ctx :: "string \<Rightarrow> cart_state \<Rightarrow> cart_state" where
  "removeFromCart_ctx x s =
     (let newItems = filter (\<lambda>item. id' item \<noteq> x) (items s) in
      if length newItems = 0 then (clearCart s)\<lparr>items := newItems\<rparr>
      else s\<lparr>items := newItems\<rparr>)"

section \<open>The platform\<close>

text \<open>
  \<^verbatim>\<open>JSON\<close>, \<^verbatim>\<open>Date\<close> and the clock belong to the browser, not to this repository. They are
  parameters of the model, and every theorem below holds for every platform.

  \<open>JSON_stringify xs\<close> is \<^verbatim>\<open>JSON.stringify(items)\<close>. \<open>JSON_parse str\<close> is
  \<^verbatim>\<open>JSON.parse(savedItems)\<close>, which throws a \<^verbatim>\<open>SyntaxError\<close> on malformed text and otherwise
  returns whatever value the text denotes. The source puts that value into the state unexamined
  (\<^verbatim>\<open>setItems(JSON.parse(savedItems))\<close>), at the type \<^verbatim>\<open>CartItem[]\<close>. When the text denotes an
  array of line items the result is \<open>ParsedItems\<close> of it; a well-formed text that denotes any other
  value (an object, an entry with a field missing or \<^verbatim>\<open>null\<close>) is \<open>ParsedForeign\<close>.

  \<open>toISOString t\<close> is \<^verbatim>\<open>new Date(t).toISOString()\<close>; \<open>getTime str\<close> is
  \<^verbatim>\<open>new Date(str).getTime()\<close>, with \<open>None\<close> for \<^verbatim>\<open>NaN\<close> (an invalid date). Times are
  milliseconds since the epoch.
\<close>

datatype parsed = ParseThrows | ParsedItems "CartItem list" | ParsedForeign

record runtime =
  toISOString :: "int \<Rightarrow> string"
  getTime :: "string \<rightharpoonup> int"
  JSON_stringify :: "CartItem list \<Rightarrow> string"
  JSON_parse :: "string \<Rightarrow> parsed"

datatype js_error = Error string | SyntaxError

section \<open>The persistence hook \<^verbatim>\<open>useCartStorage\<close>\<close>

text \<open>
  \<^verbatim>\<open>
  if (timestamp) {
      const savedTime = new Date(timestamp).getTime();
      const currentTime = new Date().getTime();
      const hoursPassed = (currentTime - savedTime) / (1000 * 60 * 60);
      if (hoursPassed > CART_EXPIRY_HOURS) { ... }
  }
  \<close>
  \<^verbatim>\<open>getItem\<close> gives \<^verbatim>\<open>null\<close> for an absent key; \<^verbatim>\<open>null\<close> and the empty string are falsy.
  A comparison with \<^verbatim>\<open>NaN\<close> is false. The quotient is taken exactly, in the rationals.
\<close>

definition hoursPassed :: "int \<Rightarrow> int \<Rightarrow> rat" where
  "hoursPassed currentTime savedTime = of_int (currentTime - savedTime) / (1000 * 60 * 60)"

definition isExpired :: "runtime \<Rightarrow> int \<Rightarrow> string option \<Rightarrow> bool" where
  "isExpired R currentTime timestamp =
     (case timestamp of
        None \<Rightarrow> False
      | Some ts \<Rightarrow>
          (if ts = [] then False
           else (case getTime R ts of
                   None \<Rightarrow> False
                 | Some savedTime \<Rightarrow> hoursPassed currentTime savedTime > of_nat CART_EXPIRY_HOURS)))"

text \<open>
  \<^verbatim>\<open>
  const loadCartData = () => {
      const savedItems = localStorage.getItem(CART_STORAGE_KEY);
      const timestamp = localStorage.getItem(CART_TIMESTAMP_KEY);
      if (timestamp) { ...
          if (hoursPassed > CART_EXPIRY_HOURS) {
              localStorage.removeItem(CART_STORAGE_KEY);
              localStorage.removeItem(CART_TIMESTAMP_KEY);
              setItems([]);
              setIsLoading(false);
              return;
          }
      }
      if (savedItems) {
          setItems(JSON.parse(savedItems));
      }
      setIsLoading(false);
  };
  \<close>
  The exception of \<^verbatim>\<open>JSON.parse\<close> is not caught: it leaves the effect, and the load does not
  complete (\<open>Throws\<close>). On every other text the load completes. When the value read is an array
  of line items the state holds it (\<open>Loaded\<close>). When it is any other value the load completes all
  the same, with \<^verbatim>\<open>isLoading\<close> false and the storage untouched, and the collection holds a value
  that the type \<^verbatim>\<open>CartItem[]\<close> does not describe (\<open>LoadedForeign\<close>); the model follows that
  provider no further.
\<close>

datatype load_result = Throws js_error | Loaded cart_state | LoadedForeign

definition loadCartData :: "runtime \<Rightarrow> int \<Rightarrow> cart_state \<Rightarrow> load_result" where
  "loadCartData R currentTime s =
     (let savedItems = localStorage s CART_STORAGE_KEY;
          timestamp = localStorage s CART_TIMESTAMP_KEY in
      if isExpired R currentTime timestamp
      then Loaded (s\<lparr>items := [], isLoading := False,
                     localStorage := removeItem CART_TIMESTAMP_KEY
                                       (removeItem CART_STORAGE_KEY (localStorage s))\<rparr>)
      else (case savedItems of
              None \<Rightarrow> Loaded (s\<lparr>isLoading := False\<rparr>)
            | Some str \<Rightarrow>
                (if str = [] then Loaded (s\<lparr>isLoading := False\<rparr>)
                 else (case JSON_parse R str of
                         ParseThrows \<Rightarrow> Throws SyntaxError
                       | ParsedItems parsedItems \<Rightarrow> Loaded (s\<lparr>items := parsedItems, isLoading := False\<rparr>)
                       | ParsedForeign \<Rightarrow> LoadedForeign))))"

text \<open>
  \<^verbatim>\<open>
  useEffect(() => {
      if (!isLoading && items.length > 0) {
          localStorage.setItem(CART_STORAGE_KEY, JSON.stringify(items));
          localStorage.setItem(CART_TIMESTAMP_KEY, new Date().toISOString());
      }
  }, [items, isLoading]);
  \<close>
\<close>

definition persistEffect :: "runtime \<Rightarrow> int \<Rightarrow> cart_state \<Rightarrow> cart_state" where
  "persistEffect R now s =
     (if \<not> isLoading s \<and> length (items s) > 0
      then s\<lparr>localStorage := setItem CART_TIMESTAMP_KEY (toISOString R now)
                                (setItem CART_STORAGE_KEY (JSON_stringify R (items s)) (localStorage s))\<rparr>
      else s)"

text \<open>
  The hook starts with \<^verbatim>\<open>useState([])\<close> and \<^verbatim>\<open>useState(true)\<close>. On mount the load effect
  runs; the persistence effect of that first render sees \<^verbatim>\<open>isLoading = true\<close> and does nothing;
  the render that follows the load has a new \<^verbatim>\<open>isLoading\<close>, so the persistence effect runs on
  the loaded state.
\<close>

definition initialState :: "(string \<rightharpoonup> string) \<Rightarrow> cart_state" where
  "initialState st = \<lparr>items = [], isLoading = True, localStorage = st\<rparr>"

definition mount :: "runtime \<Rightarrow> int \<Rightarrow> (string \<rightharpoonup> string) \<Rightarrow> load_result" where
  "mount R now st =
     (case loadCartData R now (initialState st) of
        Throws e \<Rightarrow> Throws e
      | Loaded s \<Rightarrow> Loaded (persistEffect R now s)
      | LoadedForeign \<Rightarrow> LoadedForeign)"

text \<open>
  A mutation of the cart interface. Every updater returns a fresh array (\<^verbatim>\<open>map\<close>, \<^verbatim>\<open>filter\<close>,
  a spread, \<^verbatim>\<open>[]\<close>), so the dependency \<^verbatim>\<open>items\<close> of the persistence effect changes with every
  mutation and the effect runs after it, at a time \<open>now\<close>.
\<close>

datatype mutation =
  AddToCart CartItem
| RemoveFromCart string
| UpdateQuantity string number
| ClearCart

fun applyMutation :: "mutation \<Rightarrow> cart_state \<Rightarrow> cart_state" where
  "applyMutation (AddToCart item) s = addToCart item s"
| "applyMutation (RemoveFromCart x) s = removeFromCart x s"
| "applyMutation (UpdateQuantity itemId q) s = updateQuantity itemId q s"
| "applyMutation ClearCart s = clearCart s"

definition step :: "runtime \<Rightarrow> int \<times> mutation \<Rightarrow> cart_state \<Rightarrow> cart_state" where
  "step R ev s = persistEffect R (fst ev) (applyMutation (snd ev) s)"

fun run :: "runtime \<Rightarrow> (int \<times> mutation) list \<Rightarrow> cart_state \<Rightarrow> cart_state" where
  "run R [] s = s"
| "run R (ev # evs) s = run R evs (step R ev s)"

text \<open>
  \<^verbatim>\<open>
  export const useCart = (): CartContextType => {
      const context = useContext(CartContext);
      if (!context) {
          throw new Error("useCart must be used within a CartProvider");
      }
      return context;
  };
  \<close>
  The context is created with the default \<^verbatim>\<open>undefined\<close>; under a provider it is the provider's
  value, an object.
\<close>

definition useCart :: "'c option \<Rightarrow> js_error + 'c" where
  "useCart context =
     (case context of
        None \<Rightarrow> Inl (Error ''useCart must be used within a CartProvider'')
      | Some c \<Rightarrow> Inr c)"

text \<open>A consumer component: it takes the cart interface from \<^verbatim>\<open>useCart()\<close> and calls one operation.\<close>

definition consumerCall :: "cart_state option \<Rightarrow> mutation \<Rightarrow> js_error + cart_state" where
  "consumerCall context m =
     (case useCart context of
        Inl e \<Rightarrow> Inl e
      | Inr s \<Rightarrow> Inr (applyMutation m s))"

section \<open>Example data\<close>

text \<open>
  The line item the product page adds for product \<^verbatim>\<open>"1"\<close>, here without an image, and the texts
  that \<^verbatim>\<open>JSON.stringify\<close> writes for the collections the examples below go through.
\<close>

definition exampleItem :: CartItem where
  "exampleItem = \<lparr>id' = ''1'', name = ''A'', price = Finite 1000, quantity = Finite 1, imageUrl = None\<rparr>"

definition exampleText :: string where
  \<open>exampleText = ''[{"id":"1","name":"A","price":1000,"quantity":1}]''\<close>

definition exampleText3 :: string where
  \<open>exampleText3 = ''[{"id":"1","name":"A","price":1000,"quantity":3}]''\<close>

definition exampleText0 :: string where
  \<open>exampleText0 = ''[{"id":"1","name":"A","price":1000,"quantity":0}]''\<close>

definition exampleText32 :: string where
  \<open>exampleText32 =
     ''[{"id":"1","name":"A","price":1000,"quantity":3},{"id":"2","name":"A","price":1000,"quantity":1}]''\<close>

text \<open>\<^verbatim>\<open>JSON.stringify\<close> writes \<^verbatim>\<open>NaN\<close> and the infinities as \<^verbatim>\<open>null\<close>.\<close>

definition exampleTextNaN :: string where
  \<open>exampleTextNaN = ''[{"id":"1","name":"A","price":1000,"quantity":null}]''\<close>

text \<open>
  The platform on the values the examples use. \<^verbatim>\<open>Date\<close>: \<open>1700000000000\<close> is
  \<^verbatim>\<open>2023-11-14T22:13:20.000Z\<close> and \<open>1700000060000\<close> is one minute later. \<^verbatim>\<open>JSON\<close>: the
  five collections above and the empty one. The examples format no other instant, serialise no
  other collection and parse no other string.
\<close>

definition exampleRuntime :: runtime where
  "exampleRuntime =
     \<lparr>toISOString = (\<lambda>t. if t = 1700000000000 then ''2023-11-14T22:13:20.000Z''
                           else ''2023-11-14T22:14:20.000Z''),
      getTime = (\<lambda>str. if str = ''2023-11-14T22:13:20.000Z'' then Some 1700000000000
                         else if str = ''2023-11-14T22:14:20.000Z'' then Some 1700000060000
                         else None),
      JSON_stringify = (\<lambda>xs.
         if xs = [exampleItem] then exampleText
         else if xs = [exampleItem\<lparr>quantity := Finite 3\<rparr>] then exampleText3
         else if xs = [exampleItem\<lparr>quantity := Finite 0\<rparr>] then exampleText0
         else if xs = [exampleItem\<lparr>quantity := Finite 3\<rparr>, exampleItem\<lparr>id' := ''2''\<rparr>] then exampleText32
         else if xs = [exampleItem\<lparr>quantity := NaN\<rparr>] then exampleTextNaN
         else ''[]''),
      JSON_parse = (\<lambda>str.
         if str = ''[]'' then ParsedItems []
         else if str = exampleText then ParsedItems [exampleItem]
         else if str = exampleText3 then ParsedItems [exampleItem\<lparr>quantity := Finite 3\<rparr>]
         else if str = exampleText0 then ParsedItems [exampleItem\<lparr>quantity := Finite 0\<rparr>]
         else if str = exampleText32
           then ParsedItems [exampleItem\<lparr>quantity := Finite 3\<rparr>, exampleItem\<lparr>id' := ''2''\<rparr>]
         else if str = exampleTextNaN then ParsedForeign
         else ParseThrows)\<rparr>"

text \<open>A provider whose initial load has completed with an empty collection.\<close>

definition readyState :: "(string \<rightharpoonup> string) \<Rightarrow> cart_state" where
  "readyState st = \<lparr>items = [], isLoading = False, localStorage = st\<rparr>"

section \<open>Predicates of the statements\<close>

text \<open>The quantity a mutation brings in, if it brings one, is at least one.\<close>

fun quantityOk :: "mutation \<Rightarrow> bool" where
  "quantityOk (AddToCart item) = atLeastOne (quantity item)"
| "quantityOk (UpdateQuantity itemId q) = atLeastOne q"
| "quantityOk (RemoveFromCart x) = True"
| "quantityOk ClearCart = True"

text \<open>
  The two states of the persisted slot: nothing (both keys absent), or the serialisation of the
  current, non-empty collection together with a timestamp.
\<close>

definition slotEmpty :: "(string \<rightharpoonup> string) \<Rightarrow> bool" where
  "slotEmpty st = (st CART_STORAGE_KEY = None \<and> st CART_TIMESTAMP_KEY = None)"

definition holdsSnapshot :: "runtime \<Rightarrow> cart_state \<Rightarrow> bool" where
  "holdsSnapshot R s =
     (items s \<noteq> [] \<and>
      localStorage s CART_STORAGE_KEY = Some (JSON_stringify R (items s)) \<and>
      localStorage s CART_TIMESTAMP_KEY \<noteq> None)"

definition slotInvariant :: "runtime \<Rightarrow> cart_state \<Rightarrow> bool" where
  "slotInvariant R s = (slotEmpty (localStorage s) \<or> holdsSnapshot R s)"

text \<open>\<^verbatim>\<open>updateQuantity\<close> is the one mutation that neither adds an entry nor deletes the keys.\<close>

fun isUpdateQuantity :: "mutation \<Rightarrow> bool" where
  "isUpdateQuantity (UpdateQuantity itemId q) = True"
| "isUpdateQuantity (AddToCart item) = False"
| "isUpdateQuantity (RemoveFromCart x) = False"
| "isUpdateQuantity ClearCart = False"



section \<open>Rounding\<close>

lemma powi_nat: "0 \<le> e \<Longrightarrow> (2::rat) powi e = 2 ^ nat e"
  by (simp add: power_int_def)

lemma expo_bounds:
  assumes "0 < x"
  shows "2 powi (expo x) \<le> x" and "x < 2 powi (expo x + 1)"
proof -
  obtain p q where pq: "quotient_of x = (p, q)" by (cases "quotient_of x")
  then have q: "0 < q" and x: "x = of_int p / of_int q"
    by (simp_all add: quotient_of_denom_pos quotient_of_div)
  from assms x q have p: "0 < p"
    by (simp add: zero_less_divide_iff)
  let ?e0 = "bitlen p - bitlen q"
  have bp: "2 ^ nat (bitlen p - 1) \<le> p" "p < 2 ^ nat (bitlen p)"
    using bitlen_bounds [OF p] by simp_all
  have bq: "2 ^ nat (bitlen q - 1) \<le> q" "q < 2 ^ nat (bitlen q)"
    using bitlen_bounds [OF q] by simp_all
  have p1: "1 \<le> bitlen p" using p by (simp add: bitlen_alt_def)
  have q1: "1 \<le> bitlen q" using q by (simp add: bitlen_alt_def)
  have rp: "(2::rat) powi (bitlen p - 1) \<le> of_int p" "(of_int p :: rat) < 2 powi (bitlen p)"
  proof -
    have "(of_int (2 ^ nat (bitlen p - 1)) :: rat) \<le> of_int p"
      using bp(1) by (simp only: of_int_le_iff)
    then show "(2::rat) powi (bitlen p - 1) \<le> of_int p"
      using p1 by (simp add: powi_nat)
    have "(of_int p :: rat) < of_int (2 ^ nat (bitlen p))"
      using bp(2) by (simp only: of_int_less_iff)
    then show "(of_int p :: rat) < 2 powi (bitlen p)"
      using p1 by (simp add: powi_nat)
  qed
  have rq: "(2::rat) powi (bitlen q - 1) \<le> of_int q" "(of_int q :: rat) < 2 powi (bitlen q)"
  proof -
    have "(of_int (2 ^ nat (bitlen q - 1)) :: rat) \<le> of_int q"
      using bq(1) by (simp only: of_int_le_iff)
    then show "(2::rat) powi (bitlen q - 1) \<le> of_int q"
      using q1 by (simp add: powi_nat)
    have "(of_int q :: rat) < of_int (2 ^ nat (bitlen q))"
      using bq(2) by (simp only: of_int_less_iff)
    then show "(of_int q :: rat) < 2 powi (bitlen q)"
      using q1 by (simp add: powi_nat)
  qed
  have qpos: "(0::rat) < of_int q" using q by simp
  have lower: "2 powi (?e0 - 1) \<le> x"
  proof -
    have "(2::rat) powi (?e0 - 1) * of_int q \<le> 2 powi (?e0 - 1) * 2 powi (bitlen q)"
      using rq(2) by (intro mult_left_mono) simp_all
    also have "\<dots> = 2 powi (bitlen p - 1)"
      by (simp add: power_int_add [symmetric])
    also have "\<dots> \<le> of_int p" by (rule rp(1))
    finally show ?thesis
      using qpos by (simp add: x pos_le_divide_eq)
  qed
  have upper: "x < 2 powi (?e0 + 1)"
  proof -
    have "(of_int p :: rat) < 2 powi (bitlen p)" by (rule rp(2))
    also have "\<dots> = 2 powi (?e0 + 1) * 2 powi (bitlen q - 1)"
      by (simp add: power_int_add [symmetric])
    also have "\<dots> \<le> 2 powi (?e0 + 1) * of_int q"
      using rq(1) by (intro mult_left_mono) simp_all
    finally show ?thesis
      using qpos by (simp add: x pos_divide_less_eq)
  qed
  have e: "expo x = (if 2 powi ?e0 \<le> x then ?e0 else ?e0 - 1)"
    by (simp add: expo_def pq)
  show "2 powi (expo x) \<le> x"
    using lower by (simp add: e)
  show "x < 2 powi (expo x + 1)"
    using upper by (auto simp: e not_le)
qed


lemma roundHalfEven_of_int: "roundHalfEven (of_int z) = z"
  by (simp add: roundHalfEven_def)

lemma roundToDouble_safe_integer:
  assumes "\<bar>n\<bar> \<le> 2 ^ 53"
  shows "roundToDouble (of_int n) = Finite (of_int n)"
proof (cases "n = 0")
  case True
  then show ?thesis by (simp add: roundToDouble_def)
next
  case False
  let ?a = "\<bar>of_int n\<bar> :: rat"
  have a1: "(1::rat) \<le> ?a"
  proof -
    from False have "1 \<le> \<bar>n\<bar>" by simp
    then have "(of_int 1 :: rat) \<le> of_int \<bar>n\<bar>" by (simp only: of_int_le_iff)
    then show ?thesis by simp
  qed
  have a53: "?a \<le> 2 ^ 53"
  proof -
    from assms have "(of_int \<bar>n\<bar> :: rat) \<le> of_int (2 ^ 53)" by (simp only: of_int_le_iff)
    then show ?thesis by simp
  qed
  have pos: "0 < ?a" using a1 by simp
  let ?e = "expo ?a"
  have lo: "2 powi ?e \<le> ?a" and hi: "?a < 2 powi (?e + 1)"
    using expo_bounds [OF pos] by simp_all
  have e0: "0 \<le> ?e"
  proof (rule ccontr)
    assume "\<not> 0 \<le> ?e"
    then have "?e + 1 \<le> 0" by simp
    then have "(2::rat) powi (?e + 1) \<le> 2 powi 0"
      by (intro power_int_increasing) simp_all
    with hi a1 show False by simp
  qed
  have e53: "?e \<le> 53"
  proof (rule ccontr)
    assume "\<not> ?e \<le> 53"
    then have "54 \<le> ?e" by simp
    then have "(2::rat) powi 54 \<le> 2 powi ?e"
      by (intro power_int_increasing) simp_all
    with lo a53 show False by simp
  qed
  have m: "max ?e (- 1022) = ?e" using e0 by simp
  have exact: "of_int (roundHalfEven (?a / 2 powi (?e - 52))) * 2 powi (?e - 52) = ?a"
  proof (cases "?e \<le> 52")
    case True
    define k where "k = nat (52 - ?e)"
    have "(2::rat) powi (?e - 52) = inverse (2 powi (52 - ?e))"
      using power_int_minus [of "2::rat" "52 - ?e"] by simp
    also have "\<dots> = inverse (2 ^ k)"
      using True by (simp add: k_def powi_nat)
    finally have q: "(2::rat) powi (?e - 52) = inverse (2 ^ k)" .
    define z where "z = \<bar>n\<bar> * 2 ^ k"
    have d: "?a / 2 powi (?e - 52) = of_int z"
      by (simp add: q divide_inverse z_def)
    have "of_int z * 2 powi (?e - 52) = ?a"
      by (simp add: q z_def)
    then show ?thesis
      by (simp only: d roundHalfEven_of_int)
  next
    case False
    with e53 have e: "?e = 53" by simp
    from lo e have "2 ^ 53 \<le> ?a" by (simp add: powi_nat)
    with a53 have a: "?a = 2 ^ 53" by simp
    define z :: int where "z = 2 ^ 52"
    have q: "(2::rat) powi (?e - 52) = 2"
      by (simp add: e)
    have d: "?a / 2 powi (?e - 52) = of_int z"
      unfolding q by (simp add: a z_def)
    have "of_int z * 2 powi (?e - 52) = ?a"
      unfolding q by (simp add: a z_def)
    then show ?thesis
      by (simp only: d roundHalfEven_of_int)
  qed
  have small: "\<not> 2 powi 1024 \<le> ?a"
  proof -
    have "?a < 2 powi 1024"
      using a53 by (simp add: powi_nat)
    then show ?thesis by simp
  qed
  show ?thesis
    unfolding roundToDouble_def Let_def m exact
    using False small by (auto simp: abs_if)
qed

lemma jsPlus_safe_integer:
  "x + y = of_int n \<Longrightarrow> \<bar>n\<bar> \<le> 2 ^ 53 \<Longrightarrow> jsPlus (Finite x) (Finite y) = Finite (x + y)"
  by (simp add: roundToDouble_safe_integer)


lemma floor_le_roundHalfEven: "\<lfloor>m\<rfloor> \<le> roundHalfEven m"
  by (simp add: roundHalfEven_def Let_def)

lemma roundToDouble_at_least_two:
  assumes "2 \<le> x"
  shows "atLeastOne (roundToDouble x)"
proof -
  have pos: "0 < x" using assms by simp
  let ?e = "expo x"
  have lo: "2 powi ?e \<le> x" and hi: "x < 2 powi (?e + 1)"
    using expo_bounds [OF pos] by simp_all
  have e1: "1 \<le> ?e"
  proof (rule ccontr)
    assume "\<not> 1 \<le> ?e"
    then have "?e + 1 \<le> 1" by simp
    then have "(2::rat) powi (?e + 1) \<le> 2 powi 1"
      by (intro power_int_increasing) simp_all
    with hi assms show False by simp
  qed
  have m: "max ?e (- 1022) = ?e" using e1 by simp
  let ?q = "(2::rat) powi (?e - 52)"
  have q: "0 < ?q" by simp
  have split: "(2::rat) powi ?e = 2 ^ 52 * ?q"
    using power_int_add [of "2::rat" 52 "?e - 52"] by simp
  have "(of_int (2 ^ 52) :: rat) \<le> x / ?q"
    using lo q by (simp add: pos_le_divide_eq split)
  then have "2 ^ 52 \<le> \<lfloor>x / ?q\<rfloor>"
    by (simp only: le_floor_iff)
  then have n: "2 ^ 52 \<le> roundHalfEven (x / ?q)"
    using floor_le_roundHalfEven [of "x / ?q"] by (rule order_trans)
  let ?r = "of_int (roundHalfEven (x / ?q)) * ?q"
  have "(of_int (2 ^ 52) :: rat) \<le> of_int (roundHalfEven (x / ?q))"
    using n by (simp only: of_int_le_iff)
  then have "(2 ^ 52 :: rat) * ?q \<le> ?r"
    using q by (intro mult_right_mono) simp_all
  then have "2 powi ?e \<le> ?r" by (simp only: split)
  moreover have "(2::rat) powi 1 \<le> 2 powi ?e"
    using e1 by (intro power_int_increasing) simp_all
  ultimately have r: "1 \<le> ?r" by simp
  have a: "\<bar>x\<bar> = x" using pos by simp
  show ?thesis
    unfolding roundToDouble_def Let_def a m
    using pos r by simp
qed

lemma jsPlus_atLeastOne: "atLeastOne a \<Longrightarrow> atLeastOne b \<Longrightarrow> atLeastOne (jsPlus a b)"
  by (cases a; cases b) (simp_all add: roundToDouble_at_least_two)

text \<open>Beyond \<open>2^53\<close> the sum is rounded: \<^verbatim>\<open>9007199254740992 + 1\<close> is \<^verbatim>\<open>9007199254740992\<close>.\<close>

lemma jsPlus_rounds: "jsPlus (Finite 9007199254740992) (Finite 1) = Finite 9007199254740992"
  by code_simp

section \<open>Merge on add\<close>

lemma find_None_ids: "find (\<lambda>i. id' i = x) xs = None \<longleftrightarrow> x \<notin> id' ` set xs"
  by (auto simp: find_None_iff)

lemma addToCart_updater_absent:
  "id' item \<notin> id' ` set xs \<Longrightarrow> addToCart_updater item xs = xs @ [item]"
  by (cases "find (\<lambda>i. id' i = id' item) xs")
     (simp_all add: addToCart_updater_def find_None_ids [symmetric])

lemma addToCart_updater_present:
  "id' item \<in> id' ` set xs \<Longrightarrow>
   addToCart_updater item xs =
     map (\<lambda>i. if id' i = id' item then i\<lparr>quantity := jsPlus (quantity i) (quantity item)\<rparr> else i) xs"
  by (cases "find (\<lambda>i. id' i = id' item) xs")
     (simp_all add: addToCart_updater_def find_None_ids)

text \<open>
  C1. \<^verbatim>\<open>addToCart\<close> on any collection and any item. When an entry with the item's id exists, the
  collection keeps its length, every entry with that id has its quantity replaced by the sum, as
  the \<^verbatim>\<open>+\<close> of doubles gives it, of its quantity and the item's quantity, and keeps its id, name,
  price and imageUrl, and every other entry is untouched; the incoming item's other fields appear
  nowhere. That sum is the exact sum whenever the exact sum is an integer of absolute value at most
  \<open>2^53\<close>. When no entry has that id, the item is appended at the end. The operation is a total
  function of the state: it has no failing branch, and leaves the loading flag and the storage
  alone.
\<close>

theorem addToCart_merge_or_append:
  "(id' item \<in> id' ` set (items s) \<longrightarrow>
      length (items (addToCart item s)) = length (items s) \<and>
      (\<forall>k < length (items s).
         (id' (items s ! k) = id' item \<longrightarrow>
            items (addToCart item s) ! k
              = (items s ! k)\<lparr>quantity := jsPlus (quantity (items s ! k)) (quantity item)\<rparr> \<and>
            quantity (items (addToCart item s) ! k) = jsPlus (quantity (items s ! k)) (quantity item) \<and>
            (\<forall>a b n. quantity (items s ! k) = Finite a \<and> quantity item = Finite b \<and>
               a + b = of_int n \<and> \<bar>n\<bar> \<le> 2 ^ 53 \<longrightarrow>
               quantity (items (addToCart item s) ! k) = Finite (a + b)) \<and>
            id' (items (addToCart item s) ! k) = id' (items s ! k) \<and>
            name (items (addToCart item s) ! k) = name (items s ! k) \<and>
            price (items (addToCart item s) ! k) = price (items s ! k) \<and>
            imageUrl (items (addToCart item s) ! k) = imageUrl (items s ! k)) \<and>
         (id' (items s ! k) \<noteq> id' item \<longrightarrow> items (addToCart item s) ! k = items s ! k))) \<and>
   (id' item \<notin> id' ` set (items s) \<longrightarrow> items (addToCart item s) = items s @ [item]) \<and>
   isLoading (addToCart item s) = isLoading s \<and>
   localStorage (addToCart item s) = localStorage s"
proof -
  have present: "id' item \<in> id' ` set (items s) \<Longrightarrow> k < length (items s) \<Longrightarrow>
      addToCart_updater item (items s) ! k =
        (if id' (items s ! k) = id' item
         then (items s ! k)\<lparr>quantity := jsPlus (quantity (items s ! k)) (quantity item)\<rparr>
         else items s ! k)" for k
    by (simp add: addToCart_updater_present)
  have exact: "quantity (items s ! k) = Finite a \<Longrightarrow> quantity item = Finite b \<Longrightarrow>
      a + b = of_int n \<Longrightarrow> \<bar>n\<bar> \<le> 2 ^ 53 \<Longrightarrow>
      jsPlus (quantity (items s ! k)) (quantity item) = Finite (a + b)" for k a b n
    using jsPlus_safe_integer [of a b n] by simp
  show ?thesis
  proof (intro conjI impI allI)
    assume "id' item \<in> id' ` set (items s)"
    then show "length (items (addToCart item s)) = length (items s)"
      by (simp add: addToCart_def addToCart_updater_present)
  next
    fix k a b n
    assume p: "id' item \<in> id' ` set (items s)" and k: "k < length (items s)"
      and m: "id' (items s ! k) = id' item"
      and h: "quantity (items s ! k) = Finite a \<and> quantity item = Finite b \<and>
        a + b = of_int n \<and> \<bar>n\<bar> \<le> 2 ^ 53"
    from h have "jsPlus (quantity (items s ! k)) (quantity item) = Finite (a + b)"
      using exact [of k a b n] by blast
    then show "quantity (items (addToCart item s) ! k) = Finite (a + b)"
      by (simp add: addToCart_def present [OF p k] m)
  qed (simp_all add: addToCart_def present addToCart_updater_absent)
qed

theorem addToCart_merge_or_append_witness:
  "id' (exampleItem\<lparr>name := ''B'', price := Finite 5, quantity := Finite 2\<rparr>)
      \<in> id' ` set (items (readyState Map.empty\<lparr>items := [exampleItem]\<rparr>)) \<and>
   quantity exampleItem = Finite 1 \<and> (1 :: rat) + 2 = of_int 3 \<and> \<bar>3 :: int\<bar> \<le> 2 ^ 53 \<and>
   items (addToCart (exampleItem\<lparr>name := ''B'', price := Finite 5, quantity := Finite 2\<rparr>)
      (readyState Map.empty\<lparr>items := [exampleItem]\<rparr>))
     = [\<lparr>id' = ''1'', name = ''A'', price = Finite 1000, quantity = Finite 3, imageUrl = None\<rparr>] \<and>
   id' (exampleItem\<lparr>id' := ''2''\<rparr>) \<notin> id' ` set (items (readyState Map.empty\<lparr>items := [exampleItem]\<rparr>)) \<and>
   items (addToCart (exampleItem\<lparr>id' := ''2''\<rparr>) (readyState Map.empty\<lparr>items := [exampleItem]\<rparr>))
     = [\<lparr>id' = ''1'', name = ''A'', price = Finite 1000, quantity = Finite 1, imageUrl = None\<rparr>,
        \<lparr>id' = ''2'', name = ''A'', price = Finite 1000, quantity = Finite 1, imageUrl = None\<rparr>]"
proof -
  let ?s = "readyState Map.empty\<lparr>items := [exampleItem]\<rparr>"
  let ?b = "exampleItem\<lparr>name := ''B'', price := Finite 5, quantity := Finite 2\<rparr>"
  have p: "id' ?b \<in> id' ` set (items ?s)"
    by (simp add: readyState_def)
  have a: "id' (exampleItem\<lparr>id' := ''2''\<rparr>) \<notin> id' ` set (items ?s)"
    by (simp add: readyState_def exampleItem_def)
  have n: "(1 :: rat) + 2 = of_int 3" "\<bar>3 :: int\<bar> \<le> 2 ^ 53"
    by simp_all
  from p a n addToCart_merge_or_append [of ?b ?s] addToCart_merge_or_append [of "exampleItem\<lparr>id' := ''2''\<rparr>" ?s]
  show ?thesis
    by (auto simp: readyState_def exampleItem_def length_Suc_conv)
qed

section \<open>Shared facts\<close>

lemma roundToDouble_three: "roundToDouble 3 = Finite 3"
  using roundToDouble_safe_integer [of 3] by simp

lemma keys_distinct [simp]:
  "CART_STORAGE_KEY \<noteq> CART_TIMESTAMP_KEY" "CART_TIMESTAMP_KEY \<noteq> CART_STORAGE_KEY"
  by (simp_all add: CART_STORAGE_KEY_def CART_TIMESTAMP_KEY_def)

lemma key_literals: "''ec-cart-items'' = CART_STORAGE_KEY" "''ec-cart-timestamp'' = CART_TIMESTAMP_KEY"
  by (simp_all add: CART_STORAGE_KEY_def CART_TIMESTAMP_KEY_def)

lemma removeFromCart_ctx_eq: "removeFromCart_ctx x s = removeFromCart x s"
  by (simp add: removeFromCart_ctx_def removeFromCart_def clearCart_def Let_def)

lemma ids_addToCart_updater:
  "map id' (addToCart_updater item xs) =
     (if id' item \<in> id' ` set xs then map id' xs else map id' xs @ [id' item])"
  by (simp add: addToCart_updater_present addToCart_updater_absent comp_def if_distrib cong: if_cong)

lemma items_persistEffect [simp]: "items (persistEffect R now s) = items s"
  by (simp add: persistEffect_def)

lemma isLoading_persistEffect [simp]: "isLoading (persistEffect R now s) = isLoading s"
  by (simp add: persistEffect_def)

lemma isLoading_applyMutation [simp]: "isLoading (applyMutation m s) = isLoading s"
  by (cases m) (simp_all add: addToCart_def removeFromCart_def updateQuantity_def clearCart_def Let_def)

lemma distinct_applyMutation:
  "distinct (map id' (items s)) \<Longrightarrow> distinct (map id' (items (applyMutation m s)))"
proof (cases m)
  case (AddToCart item)
  assume "distinct (map id' (items s))"
  then show ?thesis
    by (simp add: AddToCart addToCart_def ids_addToCart_updater)
next
  case (RemoveFromCart x)
  assume "distinct (map id' (items s))"
  then show ?thesis
    by (simp add: RemoveFromCart removeFromCart_def Let_def distinct_map_filter)
next
  case (UpdateQuantity x q)
  assume "distinct (map id' (items s))"
  moreover have "map id' (map (\<lambda>item. if id' item = x then item\<lparr>quantity := q\<rparr> else item) (items s))
      = map id' (items s)"
    by (simp add: comp_def if_distrib cong: if_cong)
  ultimately show ?thesis
    by (simp add: UpdateQuantity updateQuantity_def del: map_map)
next
  case ClearCart
  then show ?thesis by (simp add: clearCart_def)
qed

lemma distinct_run:
  "distinct (map id' (items s)) \<Longrightarrow> distinct (map id' (items (run R evs s)))"
proof (induction evs arbitrary: s)
  case Nil
  then show ?case by simp
next
  case (Cons ev evs)
  from Cons.prems have "distinct (map id' (items (step R ev s)))"
    by (simp add: step_def distinct_applyMutation)
  then show ?case by (simp add: Cons.IH)
qed


lemma items_step: "items (step R ev s) = items (applyMutation (snd ev) s)"
  by (simp add: step_def)

lemma isLoading_step [simp]: "isLoading (step R ev s) = isLoading s"
  by (simp add: step_def)

lemma isLoading_run [simp]: "isLoading (run R evs s) = isLoading s"
  by (induction evs arbitrary: s) simp_all

text \<open>
  C8. In every collection reached from the empty cart by a sequence of \<^verbatim>\<open>addToCart\<close>,
  \<^verbatim>\<open>removeFromCart\<close>, \<^verbatim>\<open>updateQuantity\<close> and \<^verbatim>\<open>clearCart\<close>, no two line items have the
  same id.
\<close>

theorem reachable_ids_distinct:
  "items s = [] \<Longrightarrow> distinct (map id' (items (run R evs s)))"
  by (rule distinct_run) simp

theorem reachable_ids_distinct_witness:
  "items (readyState Map.empty) = [] \<and>
   items (run exampleRuntime
      [(1700000000000, AddToCart exampleItem), (1700000060000, AddToCart (exampleItem\<lparr>quantity := Finite 2\<rparr>)),
       (1700000060000, AddToCart (exampleItem\<lparr>id' := ''2''\<rparr>))] (readyState Map.empty))
     = [exampleItem\<lparr>quantity := Finite 3\<rparr>, exampleItem\<lparr>id' := ''2''\<rparr>] \<and>
   distinct (map id' (items (run exampleRuntime
      [(1700000000000, AddToCart exampleItem), (1700000060000, AddToCart (exampleItem\<lparr>quantity := Finite 2\<rparr>)),
       (1700000060000, AddToCart (exampleItem\<lparr>id' := ''2''\<rparr>))] (readyState Map.empty))))"
  using reachable_ids_distinct [of "readyState Map.empty" exampleRuntime
      "[(1700000000000, AddToCart exampleItem), (1700000060000, AddToCart (exampleItem\<lparr>quantity := Finite 2\<rparr>)),
       (1700000060000, AddToCart (exampleItem\<lparr>id' := ''2''\<rparr>))]"]
  by (simp add: readyState_def items_step addToCart_def addToCart_updater_def exampleItem_def
      roundToDouble_three)

section \<open>Quantities\<close>

lemma quantity_applyMutation:
  assumes "\<forall>i \<in> set (items s). atLeastOne (quantity i)" and "quantityOk m"
  shows "\<forall>i \<in> set (items (applyMutation m s)). atLeastOne (quantity i)"
proof (cases m)
  case (AddToCart item)
  show ?thesis
  proof (cases "id' item \<in> id' ` set (items s)")
    case True
    with assms AddToCart show ?thesis
      by (auto simp: addToCart_def addToCart_updater_present jsPlus_atLeastOne)
  next
    case False
    with assms AddToCart show ?thesis
      by (auto simp: addToCart_def addToCart_updater_absent)
  qed
next
  case (RemoveFromCart x)
  with assms show ?thesis by (auto simp: removeFromCart_def Let_def)
next
  case (UpdateQuantity x q)
  with assms show ?thesis by (auto simp: updateQuantity_def)
next
  case ClearCart
  then show ?thesis by (simp add: clearCart_def)
qed

lemma items_updateQuantity:
  "items (updateQuantity x q s) = map (\<lambda>item. if id' item = x then item\<lparr>quantity := q\<rparr> else item) (items s)"
  by (simp add: updateQuantity_def)

lemma quantity_run:
  "(\<forall>i \<in> set (items s). atLeastOne (quantity i)) \<Longrightarrow> (\<forall>ev \<in> set evs. quantityOk (snd ev)) \<Longrightarrow>
   (\<forall>i \<in> set (items (run R evs s)). atLeastOne (quantity i))"
proof (induction evs arbitrary: s)
  case Nil
  then show ?case by simp
next
  case (Cons ev evs)
  have "\<forall>i \<in> set (items (step R ev s)). atLeastOne (quantity i)"
    unfolding items_step using Cons.prems by (intro quantity_applyMutation) simp_all
  with Cons.prems show ?case by (simp add: Cons.IH)
qed

text \<open>
  C6, as the code has it. If every line item has a quantity of at least one before, and every
  quantity handed to \<^verbatim>\<open>addToCart\<close> and \<^verbatim>\<open>updateQuantity\<close> is at least one, then every line item
  has a quantity of at least one after every sequence of mutations. \<^verbatim>\<open>updateQuantity\<close> does not
  look at the number it is given: it keeps every line item (same length), gives each entry with the
  id exactly that number as its quantity, also zero, a negative number or \<^verbatim>\<open>NaN\<close>, changes no
  other field, and leaves every entry with another id as it is.
\<close>

theorem quantity_invariant_given_valid_arguments:
  "((\<forall>i \<in> set (items s). atLeastOne (quantity i)) \<and> (\<forall>ev \<in> set evs. quantityOk (snd ev)) \<longrightarrow>
      (\<forall>i \<in> set (items (run R evs s)). atLeastOne (quantity i))) \<and>
   length (items (updateQuantity itemId q s)) = length (items s) \<and>
   (\<forall>k < length (items s).
      (id' (items s ! k) = itemId \<longrightarrow>
         items (updateQuantity itemId q s) ! k = (items s ! k)\<lparr>quantity := q\<rparr>) \<and>
      (id' (items s ! k) \<noteq> itemId \<longrightarrow>
         items (updateQuantity itemId q s) ! k = items s ! k))"
proof (intro conjI impI allI)
  assume "(\<forall>i \<in> set (items s). atLeastOne (quantity i)) \<and> (\<forall>ev \<in> set evs. quantityOk (snd ev))"
  then show "\<forall>i \<in> set (items (run R evs s)). atLeastOne (quantity i)"
    using quantity_run [of s evs R] by (elim conjE)
next
  show "length (items (updateQuantity itemId q s)) = length (items s)"
    by (simp add: items_updateQuantity)
next
  fix k
  assume "k < length (items s)" and "id' (items s ! k) = itemId"
  then show "items (updateQuantity itemId q s) ! k = (items s ! k)\<lparr>quantity := q\<rparr>"
    by (simp add: items_updateQuantity)
next
  fix k
  assume "k < length (items s)" and "id' (items s ! k) \<noteq> itemId"
  then show "items (updateQuantity itemId q s) ! k = items s ! k"
    by (simp add: items_updateQuantity)
qed

text \<open>
  The claim C6 as the specification states it fails: after \<^verbatim>\<open>updateQuantity("1", 0)\<close> on a cart
  holding one unit of item \<^verbatim>\<open>"1"\<close> the line item is still there, with quantity zero.
\<close>

theorem updateQuantity_zero_counterexample:
  "items (step exampleRuntime (1700000060000, UpdateQuantity ''1'' (Finite 0))
      (step exampleRuntime (1700000000000, AddToCart exampleItem) (readyState Map.empty)))
     = [\<lparr>id' = ''1'', name = ''A'', price = Finite 1000, quantity = Finite 0, imageUrl = None\<rparr>] \<and>
   \<not> list_all (\<lambda>i. atLeastOne (quantity i))
      (items (step exampleRuntime (1700000060000, UpdateQuantity ''1'' (Finite 0))
        (step exampleRuntime (1700000000000, AddToCart exampleItem) (readyState Map.empty))))"
  by (simp add: readyState_def items_step addToCart_def addToCart_updater_def exampleItem_def
      updateQuantity_def)

theorem quantity_invariant_given_valid_arguments_witness:
  "list_all (\<lambda>i. atLeastOne (quantity i)) (items (readyState Map.empty)) \<and>
   list_all (\<lambda>ev. quantityOk (snd ev))
      [(1700000000000, AddToCart exampleItem), (1700000060000, UpdateQuantity ''1'' (Finite 3))] \<and>
   items (run exampleRuntime
      [(1700000000000, AddToCart exampleItem), (1700000060000, UpdateQuantity ''1'' (Finite 3))]
      (readyState Map.empty)) = [exampleItem\<lparr>quantity := Finite 3\<rparr>] \<and>
   list_all (\<lambda>i. atLeastOne (quantity i)) (items (run exampleRuntime
      [(1700000000000, AddToCart exampleItem), (1700000060000, UpdateQuantity ''1'' (Finite 3))]
      (readyState Map.empty)))"
  using quantity_invariant_given_valid_arguments [of "readyState Map.empty"
      "[(1700000000000, AddToCart exampleItem), (1700000060000, UpdateQuantity ''1'' (Finite 3))]"
      exampleRuntime "''1''" "Finite 3"]
  by (simp add: readyState_def items_step addToCart_def addToCart_updater_def exampleItem_def
      updateQuantity_def)

section \<open>The example platform\<close>

lemma example_toISOString:
  "toISOString exampleRuntime 1700000000000 = ''2023-11-14T22:13:20.000Z''"
  "toISOString exampleRuntime 1700000060000 = ''2023-11-14T22:14:20.000Z''"
  by (simp_all add: exampleRuntime_def)

lemma example_getTime:
  "getTime exampleRuntime ''2023-11-14T22:13:20.000Z'' = Some 1700000000000"
  "getTime exampleRuntime ''2023-11-14T22:14:20.000Z'' = Some 1700000060000"
  by (simp_all add: exampleRuntime_def)

lemma example_stringify:
  "JSON_stringify exampleRuntime [exampleItem] = exampleText"
  "JSON_stringify exampleRuntime [exampleItem\<lparr>quantity := Finite 3\<rparr>] = exampleText3"
  "JSON_stringify exampleRuntime [exampleItem\<lparr>quantity := Finite 0\<rparr>] = exampleText0"
  "JSON_stringify exampleRuntime [exampleItem\<lparr>quantity := Finite 3\<rparr>, exampleItem\<lparr>id' := ''2''\<rparr>]
     = exampleText32"
  "JSON_stringify exampleRuntime [exampleItem\<lparr>quantity := NaN\<rparr>] = exampleTextNaN"
  by (simp_all add: exampleRuntime_def exampleItem_def)

lemma example_parse:
  "JSON_parse exampleRuntime ''[]'' = ParsedItems []"
  "JSON_parse exampleRuntime exampleText = ParsedItems [exampleItem]"
  "JSON_parse exampleRuntime exampleText3 = ParsedItems [exampleItem\<lparr>quantity := Finite 3\<rparr>]"
  "JSON_parse exampleRuntime exampleTextNaN = ParsedForeign"
  "JSON_parse exampleRuntime ''[{'' = ParseThrows"
  by (simp_all add: exampleRuntime_def exampleText_def exampleText3_def exampleText0_def
      exampleText32_def exampleTextNaN_def)


lemma exampleText_nonempty: "exampleText \<noteq> []" "exampleText3 \<noteq> []" "exampleTextNaN \<noteq> []"
  by (simp_all add: exampleText_def exampleText3_def exampleTextNaN_def)

section \<open>Removal and clearing\<close>

lemma storage_removeFromCart:
  "localStorage (removeFromCart x s) =
     (if filter (\<lambda>item. id' item \<noteq> x) (items s) = []
      then (localStorage s)(CART_STORAGE_KEY := None, CART_TIMESTAMP_KEY := None)
      else localStorage s)"
  by (simp add: removeFromCart_def Let_def removeItem_def key_literals)

lemma items_removeFromCart: "items (removeFromCart x s) = filter (\<lambda>item. id' item \<noteq> x) (items s)"
  by (simp add: removeFromCart_def Let_def)

lemma storage_clearCart:
  "localStorage (clearCart s) = (localStorage s)(CART_STORAGE_KEY := None, CART_TIMESTAMP_KEY := None)"
  by (simp add: clearCart_def removeItem_def key_literals)

lemma items_clearCart: "items (clearCart s) = []"
  by (simp add: clearCart_def)

lemma persistEffect_empty: "items s = [] \<Longrightarrow> persistEffect R now s = s"
  by (simp add: persistEffect_def)

lemma storage_persistEffect:
  "localStorage (persistEffect R now s) =
     (if \<not> isLoading s \<and> items s \<noteq> []
      then (localStorage s)(CART_STORAGE_KEY \<mapsto> JSON_stringify R (items s),
                            CART_TIMESTAMP_KEY \<mapsto> toISOString R now)
      else localStorage s)"
  by (simp add: persistEffect_def setItem_def)

text \<open>
  C10. \<^verbatim>\<open>removeFromCart(id)\<close> on an empty collection, for any id: the collection stays empty and
  both keys \<^verbatim>\<open>ec-cart-items\<close> and \<^verbatim>\<open>ec-cart-timestamp\<close> are deleted, whatever they held; the
  persistence effect that follows writes nothing. The deletion is guarded by the emptiness of the
  filtered list alone. Both versions of the function agree.
\<close>

theorem removeFromCart_on_empty_deletes_keys:
  "items s = [] \<Longrightarrow>
     items (removeFromCart x s) = [] \<and>
     localStorage (removeFromCart x s) ''ec-cart-items'' = None \<and>
     localStorage (removeFromCart x s) ''ec-cart-timestamp'' = None \<and>
     step R (now, RemoveFromCart x) s = removeFromCart x s \<and>
     removeFromCart_ctx x s = removeFromCart x s"
  by (simp add: step_def persistEffect_empty items_removeFromCart storage_removeFromCart
      removeFromCart_ctx_eq key_literals)

theorem removeFromCart_on_empty_deletes_keys_witness:
  "items (readyState [''ec-cart-items'' \<mapsto> ''[]'', ''ec-cart-timestamp'' \<mapsto> ''2023-11-14T22:13:20.000Z'']) = [] \<and>
   localStorage (readyState [''ec-cart-items'' \<mapsto> ''[]'', ''ec-cart-timestamp'' \<mapsto> ''2023-11-14T22:13:20.000Z''])
      ''ec-cart-items'' = Some ''[]'' \<and>
   localStorage (step exampleRuntime (1700000060000, RemoveFromCart ''7'')
      (readyState [''ec-cart-items'' \<mapsto> ''[]'', ''ec-cart-timestamp'' \<mapsto> ''2023-11-14T22:13:20.000Z'']))
      ''ec-cart-items'' = None \<and>
   localStorage (step exampleRuntime (1700000060000, RemoveFromCart ''7'')
      (readyState [''ec-cart-items'' \<mapsto> ''[]'', ''ec-cart-timestamp'' \<mapsto> ''2023-11-14T22:13:20.000Z'']))
      ''ec-cart-timestamp'' = None"
  using removeFromCart_on_empty_deletes_keys
    [of "readyState [''ec-cart-items'' \<mapsto> ''[]'', ''ec-cart-timestamp'' \<mapsto> ''2023-11-14T22:13:20.000Z'']"
      "''7''" exampleRuntime 1700000060000]
  by (simp add: readyState_def)

text \<open>
  C5. When every entry of the collection carries the id (a single line item in particular),
  \<^verbatim>\<open>removeFromCart\<close> with that id leaves the collection empty and deletes both keys; the persistence
  effect that follows writes nothing, so no empty snapshot is stored. \<^verbatim>\<open>clearCart\<close> empties the
  collection and deletes both keys from any state.
\<close>

theorem removal_of_last_id_and_clearCart_delete_keys:
  "((\<forall>i \<in> set (items s). id' i = x) \<longrightarrow>
      items (step R (now, RemoveFromCart x) s) = [] \<and>
      localStorage (step R (now, RemoveFromCart x) s) ''ec-cart-items'' = None \<and>
      localStorage (step R (now, RemoveFromCart x) s) ''ec-cart-timestamp'' = None \<and>
      step R (now, RemoveFromCart x) s = removeFromCart_ctx x s) \<and>
   items (step R (now, ClearCart) s) = [] \<and>
   localStorage (step R (now, ClearCart) s) ''ec-cart-items'' = None \<and>
   localStorage (step R (now, ClearCart) s) ''ec-cart-timestamp'' = None"
proof -
  have clear: "step R (now, ClearCart) s = clearCart s"
    by (simp add: step_def persistEffect_empty items_clearCart)
  {
    assume "\<forall>i \<in> set (items s). id' i = x"
    then have "filter (\<lambda>item. id' item \<noteq> x) (items s) = []"
      by (simp add: filter_empty_conv)
    then have "items (removeFromCart x s) = []"
      and "localStorage (removeFromCart x s) = (localStorage s)(CART_STORAGE_KEY := None, CART_TIMESTAMP_KEY := None)"
      by (simp_all add: items_removeFromCart storage_removeFromCart)
    then have "items (step R (now, RemoveFromCart x) s) = [] \<and>
      localStorage (step R (now, RemoveFromCart x) s) ''ec-cart-items'' = None \<and>
      localStorage (step R (now, RemoveFromCart x) s) ''ec-cart-timestamp'' = None \<and>
      step R (now, RemoveFromCart x) s = removeFromCart_ctx x s"
      by (simp add: step_def persistEffect_empty key_literals removeFromCart_ctx_eq)
  }
  then have rm: "(\<forall>i \<in> set (items s). id' i = x) \<longrightarrow>
      items (step R (now, RemoveFromCart x) s) = [] \<and>
      localStorage (step R (now, RemoveFromCart x) s) ''ec-cart-items'' = None \<and>
      localStorage (step R (now, RemoveFromCart x) s) ''ec-cart-timestamp'' = None \<and>
      step R (now, RemoveFromCart x) s = removeFromCart_ctx x s"
    by (rule impI)
  have cl: "items (step R (now, ClearCart) s) = [] \<and>
      localStorage (step R (now, ClearCart) s) ''ec-cart-items'' = None \<and>
      localStorage (step R (now, ClearCart) s) ''ec-cart-timestamp'' = None"
    by (simp add: clear items_clearCart storage_clearCart key_literals)
  from rm cl show ?thesis by (rule conjI)
qed

theorem removal_of_last_id_and_clearCart_delete_keys_witness:
  "items (step exampleRuntime (1700000000000, AddToCart exampleItem) (readyState Map.empty))
     = [exampleItem] \<and>
   id' exampleItem = ''1'' \<and>
   localStorage (step exampleRuntime (1700000000000, AddToCart exampleItem) (readyState Map.empty))
      ''ec-cart-timestamp'' = Some ''2023-11-14T22:13:20.000Z'' \<and>
   items (step exampleRuntime (1700000060000, RemoveFromCart ''1'')
      (step exampleRuntime (1700000000000, AddToCart exampleItem) (readyState Map.empty))) = [] \<and>
   localStorage (step exampleRuntime (1700000060000, RemoveFromCart ''1'')
      (step exampleRuntime (1700000000000, AddToCart exampleItem) (readyState Map.empty)))
      ''ec-cart-items'' = None \<and>
   localStorage (step exampleRuntime (1700000060000, RemoveFromCart ''1'')
      (step exampleRuntime (1700000000000, AddToCart exampleItem) (readyState Map.empty)))
      ''ec-cart-timestamp'' = None"
proof -
  have h: "\<forall>i \<in> set (items (step exampleRuntime (1700000000000, AddToCart exampleItem)
      (readyState Map.empty))). id' i = ''1''"
    by (simp add: items_step addToCart_def addToCart_updater_def readyState_def exampleItem_def)
  have ts: "localStorage (step exampleRuntime (1700000000000, AddToCart exampleItem) (readyState Map.empty))
      ''ec-cart-timestamp'' = Some ''2023-11-14T22:13:20.000Z''"
    by (simp add: step_def storage_persistEffect addToCart_def addToCart_updater_def readyState_def
        exampleItem_def exampleRuntime_def key_literals)
  have i: "items (step exampleRuntime (1700000000000, AddToCart exampleItem) (readyState Map.empty))
      = [exampleItem]"
    by (simp add: items_step addToCart_def addToCart_updater_def readyState_def)
  have x: "id' exampleItem = ''1''"
    by (simp add: exampleItem_def)
  from h ts i x removal_of_last_id_and_clearCart_delete_keys
    [of "step exampleRuntime (1700000000000, AddToCart exampleItem) (readyState Map.empty)" "''1''"
      exampleRuntime 1700000060000]
  show ?thesis by blast
qed

section \<open>The guard of \<^verbatim>\<open>useCart\<close>\<close>

text \<open>
  C9. \<^verbatim>\<open>useCart\<close> with no provider in scope raises the error
  \<^verbatim>\<open>useCart must be used within a CartProvider\<close> at once, so a consumer's call of a cart operation
  fails with it; with a provider in scope \<^verbatim>\<open>useCart\<close> returns the provider's value and the
  consumer's call of any of the four operations returns a state, never an error.
\<close>

theorem useCart_fails_fast_outside_provider:
  "useCart (None :: cart_state option) = Inl (Error ''useCart must be used within a CartProvider'') \<and>
   useCart (Some c) = Inr c \<and>
   consumerCall None m = Inl (Error ''useCart must be used within a CartProvider'') \<and>
   consumerCall (Some s) m = Inr (applyMutation m s)"
  by (simp add: useCart_def consumerCall_def)

section \<open>Removal of an id that is not in the cart\<close>

lemma isLoading_removeFromCart: "isLoading (removeFromCart x s) = isLoading s"
  using isLoading_applyMutation [of "RemoveFromCart x" s] by simp

lemma filter_absent_id: "x \<notin> id' ` set xs \<Longrightarrow> filter (\<lambda>item. id' item \<noteq> x) xs = xs"
  by (induction xs) auto

text \<open>
  C4, as the code has it. \<^verbatim>\<open>removeFromCart(id)\<close> with an id that matches no entry, after the load
  has completed: no error, and the collection is unchanged. \<^verbatim>\<open>filter\<close> returns a new array, so the
  persistence effect runs: on a non-empty collection it stores the serialisation of the same
  collection again (the stored list is unchanged when it was that serialisation) and replaces the
  timestamp by the current time; on an empty collection both keys are deleted.
\<close>

theorem removeFromCart_absent_id:
  "x \<notin> id' ` set (items s) \<Longrightarrow> \<not> isLoading s \<Longrightarrow>
     items (step R (now, RemoveFromCart x) s) = items s \<and>
     isLoading (step R (now, RemoveFromCart x) s) = isLoading s \<and>
     localStorage (step R (now, RemoveFromCart x) s) =
       (if items s = []
        then (localStorage s)(CART_STORAGE_KEY := None, CART_TIMESTAMP_KEY := None)
        else (localStorage s)(CART_STORAGE_KEY \<mapsto> JSON_stringify R (items s),
                              CART_TIMESTAMP_KEY \<mapsto> toISOString R now)) \<and>
     (items s \<noteq> [] \<and> localStorage s CART_STORAGE_KEY = Some (JSON_stringify R (items s)) \<longrightarrow>
        localStorage (step R (now, RemoveFromCart x) s) CART_STORAGE_KEY = localStorage s CART_STORAGE_KEY) \<and>
     removeFromCart_ctx x s = removeFromCart x s"
proof -
  assume absent: "x \<notin> id' ` set (items s)" and loaded: "\<not> isLoading s"
  have f: "filter (\<lambda>item. id' item \<noteq> x) (items s) = items s"
    using absent by (rule filter_absent_id)
  have i: "items (removeFromCart x s) = items s"
    by (simp add: items_removeFromCart f)
  have l: "isLoading (removeFromCart x s) = isLoading s"
    by (rule isLoading_removeFromCart)
  have st: "localStorage (removeFromCart x s) =
      (if items s = [] then (localStorage s)(CART_STORAGE_KEY := None, CART_TIMESTAMP_KEY := None)
       else localStorage s)"
    by (simp add: storage_removeFromCart f)
  show ?thesis
    using loaded by (simp add: step_def storage_persistEffect i l st removeFromCart_ctx_eq)
qed

theorem removeFromCart_absent_id_witness:
  "''2'' \<notin> id' ` set (items (step exampleRuntime (1700000000000, AddToCart exampleItem) (readyState Map.empty))) \<and>
   \<not> isLoading (step exampleRuntime (1700000000000, AddToCart exampleItem) (readyState Map.empty)) \<and>
   items (step exampleRuntime (1700000060000, RemoveFromCart ''2'')
      (step exampleRuntime (1700000000000, AddToCart exampleItem) (readyState Map.empty))) = [exampleItem] \<and>
   localStorage (step exampleRuntime (1700000060000, RemoveFromCart ''2'')
      (step exampleRuntime (1700000000000, AddToCart exampleItem) (readyState Map.empty))) =
     [CART_STORAGE_KEY \<mapsto> exampleText,
      CART_TIMESTAMP_KEY \<mapsto> ''2023-11-14T22:14:20.000Z'']"
proof -
  have i: "items (step exampleRuntime (1700000000000, AddToCart exampleItem) (readyState Map.empty))
      = [exampleItem]"
    by (simp add: items_step addToCart_def addToCart_updater_def readyState_def)
  have st: "localStorage (step exampleRuntime (1700000000000, AddToCart exampleItem) (readyState Map.empty))
      = [CART_STORAGE_KEY \<mapsto> exampleText,
         CART_TIMESTAMP_KEY \<mapsto> ''2023-11-14T22:13:20.000Z'']"
    by (simp add: step_def storage_persistEffect addToCart_def addToCart_updater_def readyState_def
        example_toISOString example_stringify)
  have a: "''2'' \<notin> id' ` set (items (step exampleRuntime (1700000000000, AddToCart exampleItem)
      (readyState Map.empty)))"
    unfolding i by (simp add: exampleItem_def)
  have l: "\<not> isLoading (step exampleRuntime (1700000000000, AddToCart exampleItem) (readyState Map.empty))"
    by (simp add: readyState_def)
  have iso: "toISOString exampleRuntime 1700000060000 = ''2023-11-14T22:14:20.000Z''"
    by (simp add: exampleRuntime_def)
  from removeFromCart_absent_id [OF a l, of exampleRuntime 1700000060000] a l
  show ?thesis
    by (simp add: i st iso example_stringify)
qed

text \<open>
  The claim C4 as the specification states it fails on the timestamp: one item is added at
  \<^verbatim>\<open>22:13:20\<close>, and removing the absent id \<^verbatim>\<open>"2"\<close> a minute later leaves the collection alone but
  replaces the stored timestamp.
\<close>

theorem removeFromCart_absent_id_counterexample:
  "''2'' \<notin> id' ` set (items (step exampleRuntime (1700000000000, AddToCart exampleItem) (readyState Map.empty))) \<and>
   localStorage (step exampleRuntime (1700000000000, AddToCart exampleItem) (readyState Map.empty))
      ''ec-cart-timestamp'' = Some ''2023-11-14T22:13:20.000Z'' \<and>
   localStorage (step exampleRuntime (1700000060000, RemoveFromCart ''2'')
      (step exampleRuntime (1700000000000, AddToCart exampleItem) (readyState Map.empty)))
      ''ec-cart-timestamp'' = Some ''2023-11-14T22:14:20.000Z'' \<and>
   localStorage (step exampleRuntime (1700000060000, RemoveFromCart ''2'')
      (step exampleRuntime (1700000000000, AddToCart exampleItem) (readyState Map.empty)))
      ''ec-cart-timestamp''
     \<noteq> localStorage (step exampleRuntime (1700000000000, AddToCart exampleItem) (readyState Map.empty))
      ''ec-cart-timestamp''"
  by (simp add: step_def storage_persistEffect items_removeFromCart storage_removeFromCart
      isLoading_removeFromCart addToCart_def addToCart_updater_def readyState_def
      exampleRuntime_def exampleItem_def key_literals)

section \<open>The initial load\<close>

lemma expired_iff:
  "hoursPassed currentTime savedTime > of_nat CART_EXPIRY_HOURS
     \<longleftrightarrow> currentTime - savedTime > 24 * 60 * 60 * 1000"
proof -
  have "hoursPassed currentTime savedTime > of_nat CART_EXPIRY_HOURS
      \<longleftrightarrow> (of_int (24 * 3600000) :: rat) < of_int (currentTime - savedTime)"
    by (simp add: hoursPassed_def CART_EXPIRY_HOURS_def field_simps)
  also have "\<dots> \<longleftrightarrow> 24 * 3600000 < currentTime - savedTime"
    by (rule of_int_less_iff)
  finally show ?thesis by simp
qed

lemma loadCartData_expired:
  assumes "st CART_TIMESTAMP_KEY = Some ts" and "ts \<noteq> []" and "getTime R ts = Some savedTime"
    and "currentTime - savedTime > 24 * 60 * 60 * 1000"
  shows "loadCartData R currentTime (initialState st) =
    Loaded \<lparr>items = [], isLoading = False,
            localStorage = st(CART_STORAGE_KEY := None, CART_TIMESTAMP_KEY := None)\<rparr>"
  using assms
  by (simp add: loadCartData_def initialState_def isExpired_def expired_iff removeItem_def)

lemma loadCartData_nothing_stored:
  assumes "\<not> isExpired R currentTime (st CART_TIMESTAMP_KEY)"
    and "st CART_STORAGE_KEY = None \<or> st CART_STORAGE_KEY = Some []"
  shows "loadCartData R currentTime (initialState st) =
    Loaded \<lparr>items = [], isLoading = False, localStorage = st\<rparr>"
  using assms by (auto simp: loadCartData_def initialState_def)

lemma loadCartData_parsed:
  assumes "\<not> isExpired R currentTime (st CART_TIMESTAMP_KEY)"
    and "st CART_STORAGE_KEY = Some str" and "str \<noteq> []"
  shows "loadCartData R currentTime (initialState st) =
    (case JSON_parse R str of
       ParseThrows \<Rightarrow> Throws SyntaxError
     | ParsedItems xs \<Rightarrow> Loaded \<lparr>items = xs, isLoading = False, localStorage = st\<rparr>
     | ParsedForeign \<Rightarrow> LoadedForeign)"
  using assms by (simp add: loadCartData_def initialState_def split: parsed.splits)

lemma mount_empty:
  "loadCartData R now (initialState st) = Loaded s \<Longrightarrow> items s = [] \<Longrightarrow> mount R now st = Loaded s"
  by (simp add: mount_def persistEffect_empty)

lemma not_expired:
  "st CART_TIMESTAMP_KEY = None \<or>
   (st CART_TIMESTAMP_KEY = Some ts \<and> getTime R ts = Some savedTime \<and>
    now - savedTime \<le> 24 * 60 * 60 * 1000) \<Longrightarrow>
   \<not> isExpired R now (st CART_TIMESTAMP_KEY)"
  by (auto simp: isExpired_def expired_iff)

text \<open>
  C2. The initial load from any persisted state, on any platform. When the timestamp key holds a
  (non-empty) string that marks a time more than 24 hours before the current time, the load ends
  with an empty collection and with both keys absent, and so does the whole mount (the persistence
  effect writes nothing for an empty collection). When the timestamp key is absent, and when it
  marks a time at most 24 hours back, the load does not touch the storage, and: with no stored list
  (or the empty string) the collection stays empty; with a stored text that \<^verbatim>\<open>JSON.parse\<close> reads as
  the list \<open>xs\<close>, whatever list that is, the collection is \<open>xs\<close>. No entry is validated: the
  loaded list may repeat an id or hold a quantity below one, and a stored text that denotes a value
  of another shape is taken over all the same. Only a stored text that is not JSON at all stops
  the load, with the \<^verbatim>\<open>SyntaxError\<close> of \<^verbatim>\<open>JSON.parse\<close>.
\<close>

theorem loadCartData_expiry:
  "(st CART_TIMESTAMP_KEY = Some ts \<and> ts \<noteq> [] \<and> getTime R ts = Some savedTime \<and>
      now - savedTime > 24 * 60 * 60 * 1000 \<longrightarrow>
      loadCartData R now (initialState st) =
        Loaded \<lparr>items = [], isLoading = False,
                localStorage = st(CART_STORAGE_KEY := None, CART_TIMESTAMP_KEY := None)\<rparr> \<and>
      mount R now st =
        Loaded \<lparr>items = [], isLoading = False,
                localStorage = st(CART_STORAGE_KEY := None, CART_TIMESTAMP_KEY := None)\<rparr>) \<and>
   ((st CART_TIMESTAMP_KEY = None \<or>
     (st CART_TIMESTAMP_KEY = Some ts \<and> getTime R ts = Some savedTime \<and>
      now - savedTime \<le> 24 * 60 * 60 * 1000)) \<longrightarrow>
      ((st CART_STORAGE_KEY = None \<or> st CART_STORAGE_KEY = Some []) \<longrightarrow>
         loadCartData R now (initialState st) =
           Loaded \<lparr>items = [], isLoading = False, localStorage = st\<rparr>) \<and>
      (st CART_STORAGE_KEY = Some str \<and> str \<noteq> [] \<and> JSON_parse R str = ParsedItems xs \<longrightarrow>
         loadCartData R now (initialState st) =
           Loaded \<lparr>items = xs, isLoading = False, localStorage = st\<rparr>) \<and>
      (st CART_STORAGE_KEY = Some str \<and> str \<noteq> [] \<and> JSON_parse R str = ParsedForeign \<longrightarrow>
         loadCartData R now (initialState st) = LoadedForeign) \<and>
      (st CART_STORAGE_KEY = Some str \<and> str \<noteq> [] \<and> JSON_parse R str = ParseThrows \<longrightarrow>
         loadCartData R now (initialState st) = Throws SyntaxError))"
proof (intro conjI impI)
  assume h: "st CART_TIMESTAMP_KEY = Some ts \<and> ts \<noteq> [] \<and> getTime R ts = Some savedTime \<and>
      now - savedTime > 24 * 60 * 60 * 1000"
  then show l: "loadCartData R now (initialState st) =
      Loaded \<lparr>items = [], isLoading = False,
              localStorage = st(CART_STORAGE_KEY := None, CART_TIMESTAMP_KEY := None)\<rparr>"
    using loadCartData_expired [of st ts R savedTime now] by simp
  then show "mount R now st =
      Loaded \<lparr>items = [], isLoading = False,
              localStorage = st(CART_STORAGE_KEY := None, CART_TIMESTAMP_KEY := None)\<rparr>"
    by (rule mount_empty) simp
next
  assume "st CART_TIMESTAMP_KEY = None \<or>
     (st CART_TIMESTAMP_KEY = Some ts \<and> getTime R ts = Some savedTime \<and>
      now - savedTime \<le> 24 * 60 * 60 * 1000)"
  then have n: "\<not> isExpired R now (st CART_TIMESTAMP_KEY)" by (rule not_expired)
  assume "st CART_STORAGE_KEY = None \<or> st CART_STORAGE_KEY = Some []"
  with n show "loadCartData R now (initialState st) =
      Loaded \<lparr>items = [], isLoading = False, localStorage = st\<rparr>"
    by (rule loadCartData_nothing_stored)
next
  assume "st CART_TIMESTAMP_KEY = None \<or>
     (st CART_TIMESTAMP_KEY = Some ts \<and> getTime R ts = Some savedTime \<and>
      now - savedTime \<le> 24 * 60 * 60 * 1000)"
  then have n: "\<not> isExpired R now (st CART_TIMESTAMP_KEY)" by (rule not_expired)
  assume p: "st CART_STORAGE_KEY = Some str \<and> str \<noteq> [] \<and> JSON_parse R str = ParsedItems xs"
  then show "loadCartData R now (initialState st) =
      Loaded \<lparr>items = xs, isLoading = False, localStorage = st\<rparr>"
    using n loadCartData_parsed [of R now st str] by simp
next
  assume "st CART_TIMESTAMP_KEY = None \<or>
     (st CART_TIMESTAMP_KEY = Some ts \<and> getTime R ts = Some savedTime \<and>
      now - savedTime \<le> 24 * 60 * 60 * 1000)"
  then have n: "\<not> isExpired R now (st CART_TIMESTAMP_KEY)" by (rule not_expired)
  assume p: "st CART_STORAGE_KEY = Some str \<and> str \<noteq> [] \<and> JSON_parse R str = ParsedForeign"
  then show "loadCartData R now (initialState st) = LoadedForeign"
    using n loadCartData_parsed [of R now st str] by simp
next
  assume "st CART_TIMESTAMP_KEY = None \<or>
     (st CART_TIMESTAMP_KEY = Some ts \<and> getTime R ts = Some savedTime \<and>
      now - savedTime \<le> 24 * 60 * 60 * 1000)"
  then have n: "\<not> isExpired R now (st CART_TIMESTAMP_KEY)" by (rule not_expired)
  assume p: "st CART_STORAGE_KEY = Some str \<and> str \<noteq> [] \<and> JSON_parse R str = ParseThrows"
  then show "loadCartData R now (initialState st) = Throws SyntaxError"
    using n loadCartData_parsed [of R now st str] by simp
qed

theorem loadCartData_expiry_witness:
  "[CART_STORAGE_KEY \<mapsto> exampleText, CART_TIMESTAMP_KEY \<mapsto> ''2023-11-14T22:13:20.000Z'']
      CART_TIMESTAMP_KEY = Some ''2023-11-14T22:13:20.000Z'' \<and>
   getTime exampleRuntime ''2023-11-14T22:13:20.000Z'' = Some 1700000000000 \<and>
   (1700086400001 :: int) - 1700000000000 > 24 * 60 * 60 * 1000 \<and>
   mount exampleRuntime 1700086400001
      [CART_STORAGE_KEY \<mapsto> exampleText, CART_TIMESTAMP_KEY \<mapsto> ''2023-11-14T22:13:20.000Z'']
     = Loaded \<lparr>items = [], isLoading = False, localStorage = Map.empty\<rparr> \<and>
   (1700086400000 :: int) - 1700000000000 \<le> 24 * 60 * 60 * 1000 \<and>
   JSON_parse exampleRuntime exampleText = ParsedItems [exampleItem] \<and>
   loadCartData exampleRuntime 1700086400000
      (initialState [CART_STORAGE_KEY \<mapsto> exampleText, CART_TIMESTAMP_KEY \<mapsto> ''2023-11-14T22:13:20.000Z''])
     = Loaded \<lparr>items = [exampleItem], isLoading = False,
               localStorage = [CART_STORAGE_KEY \<mapsto> exampleText,
                               CART_TIMESTAMP_KEY \<mapsto> ''2023-11-14T22:13:20.000Z'']\<rparr> \<and>
   [CART_STORAGE_KEY \<mapsto> exampleText] CART_TIMESTAMP_KEY = None \<and>
   loadCartData exampleRuntime 1700086400001 (initialState [CART_STORAGE_KEY \<mapsto> exampleText])
     = Loaded \<lparr>items = [exampleItem], isLoading = False,
               localStorage = [CART_STORAGE_KEY \<mapsto> exampleText]\<rparr> \<and>
   loadCartData exampleRuntime 1700086400001 (initialState Map.empty)
     = Loaded \<lparr>items = [], isLoading = False, localStorage = Map.empty\<rparr> \<and>
   JSON_parse exampleRuntime exampleTextNaN = ParsedForeign \<and>
   loadCartData exampleRuntime 1700086400001 (initialState [CART_STORAGE_KEY \<mapsto> exampleTextNaN])
     = LoadedForeign \<and>
   JSON_parse exampleRuntime ''[{'' = ParseThrows \<and>
   loadCartData exampleRuntime 1700086400001 (initialState [CART_STORAGE_KEY \<mapsto> ''[{''])
     = Throws SyntaxError"
proof -
  have e: "[CART_STORAGE_KEY \<mapsto> exampleText, CART_TIMESTAMP_KEY \<mapsto> ''2023-11-14T22:13:20.000Z'']
      (CART_STORAGE_KEY := None, CART_TIMESTAMP_KEY := None) = Map.empty"
    by (rule ext) simp
  from
    loadCartData_expiry [of "[CART_STORAGE_KEY \<mapsto> exampleText, CART_TIMESTAMP_KEY \<mapsto> ''2023-11-14T22:13:20.000Z'']"
      "''2023-11-14T22:13:20.000Z''" exampleRuntime 1700000000000 1700086400001 exampleText "[exampleItem]"]
    loadCartData_expiry [of "[CART_STORAGE_KEY \<mapsto> exampleText, CART_TIMESTAMP_KEY \<mapsto> ''2023-11-14T22:13:20.000Z'']"
      "''2023-11-14T22:13:20.000Z''" exampleRuntime 1700000000000 1700086400000 exampleText "[exampleItem]"]
    loadCartData_expiry [of "[CART_STORAGE_KEY \<mapsto> exampleText]"
      "''2023-11-14T22:13:20.000Z''" exampleRuntime 1700000000000 1700086400001 exampleText "[exampleItem]"]
    loadCartData_expiry [of Map.empty
      "''2023-11-14T22:13:20.000Z''" exampleRuntime 1700000000000 1700086400001 exampleText "[exampleItem]"]
    loadCartData_expiry [of "[CART_STORAGE_KEY \<mapsto> exampleTextNaN]"
      "''2023-11-14T22:13:20.000Z''" exampleRuntime 1700000000000 1700086400001 exampleTextNaN "[exampleItem]"]
    loadCartData_expiry [of "[CART_STORAGE_KEY \<mapsto> ''[{'']"
      "''2023-11-14T22:13:20.000Z''" exampleRuntime 1700000000000 1700086400001 "''[{''" "[exampleItem]"]
  show ?thesis
    by (simp add: example_getTime example_parse exampleText_nonempty e)
qed

section \<open>The persisted slot under mutations\<close>

lemma step_nonempty_holdsSnapshot:
  assumes "\<not> isLoading s" and "items (applyMutation m s) \<noteq> []"
  shows "holdsSnapshot R (step R (now, m) s)"
  using assms by (simp add: holdsSnapshot_def step_def storage_persistEffect)

lemma step_empty_storage:
  assumes "items (applyMutation m s) = []"
  shows "localStorage (step R (now, m) s) =
    (if isUpdateQuantity m then localStorage s
     else (localStorage s)(CART_STORAGE_KEY := None, CART_TIMESTAMP_KEY := None))"
proof (cases m)
  case (AddToCart item)
  have "addToCart_updater item (items s) \<noteq> []"
    by (cases "id' item \<in> id' ` set (items s)")
       (auto simp: addToCart_updater_present addToCart_updater_absent)
  with assms AddToCart show ?thesis by (simp add: addToCart_def)
next
  case (RemoveFromCart x)
  with assms show ?thesis
    by (simp add: step_def persistEffect_empty items_removeFromCart storage_removeFromCart)
next
  case (UpdateQuantity x q)
  with assms show ?thesis
    by (simp add: step_def persistEffect_empty) (simp add: updateQuantity_def)
next
  case ClearCart
  with assms show ?thesis
    by (simp add: step_def persistEffect_empty items_clearCart storage_clearCart)
qed

lemma updateQuantity_empty_iff: "items (updateQuantity x q s) = [] \<longleftrightarrow> items s = []"
  by (simp add: items_updateQuantity)

lemma step_slotInvariant:
  assumes "\<not> isLoading s" and "slotInvariant R s \<or> \<not> isUpdateQuantity m"
  shows "slotInvariant R (step R (now, m) s)"
proof (cases "items (applyMutation m s) = []")
  case False
  with assms(1) show ?thesis
    by (simp add: slotInvariant_def step_nonempty_holdsSnapshot)
next
  case True
  show ?thesis
  proof (cases "isUpdateQuantity m")
    case False
    with True show ?thesis
      by (simp add: slotInvariant_def slotEmpty_def step_empty_storage)
  next
    case upd: True
    then obtain x q where m: "m = UpdateQuantity x q" by (cases m) simp_all
    from True m have e: "items s = []" by (simp add: updateQuantity_empty_iff)
    from upd assms(2) have "slotInvariant R s" by simp
    with e have "slotEmpty (localStorage s)"
      by (simp add: slotInvariant_def holdsSnapshot_def)
    with True upd show ?thesis
      by (simp add: slotInvariant_def step_empty_storage)
  qed
qed

lemma run_slotInvariant:
  "\<not> isLoading s \<Longrightarrow> slotInvariant R s \<or> (\<exists>ev \<in> set evs. \<not> isUpdateQuantity (snd ev)) \<Longrightarrow>
   slotInvariant R (run R evs s)"
proof (induction evs arbitrary: s)
  case Nil
  then show ?case by simp
next
  case (Cons ev evs)
  have l: "\<not> isLoading (step R ev s)" using Cons.prems(1) by simp
  show ?case
  proof (cases "slotInvariant R s \<or> \<not> isUpdateQuantity (snd ev)")
    case True
    with Cons.prems(1) have "slotInvariant R (step R (fst ev, snd ev) s)"
      by (rule step_slotInvariant)
    with l show ?thesis by (simp add: Cons.IH)
  next
    case False
    with Cons.prems(2) have "\<exists>ev \<in> set evs. \<not> isUpdateQuantity (snd ev)" by auto
    with l show ?thesis by (simp add: Cons.IH)
  qed
qed

lemma mount_loaded:
  assumes "mount R t0 st = Loaded s"
  shows "\<not> isLoading s" and "items s \<noteq> [] \<Longrightarrow> holdsSnapshot R s"
proof -
  from assms obtain s0 where l: "loadCartData R t0 (initialState st) = Loaded s0"
    and s: "s = persistEffect R t0 s0"
    by (auto simp: mount_def split: load_result.splits)
  from l have l0: "\<not> isLoading s0"
    by (auto simp: loadCartData_def Let_def split: if_splits option.splits parsed.splits)
  with s show "\<not> isLoading s" by simp
  assume "items s \<noteq> []"
  with s l0 show "holdsSnapshot R s"
    by (simp add: holdsSnapshot_def storage_persistEffect)
qed

text \<open>
  C3, as the code has it. Let the initial load have completed in state \<open>s\<close>. After every sequence
  of mutations the slot holds nothing or holds the serialisation of the current non-empty
  collection with a timestamp, provided the loaded collection was non-empty, or the slot was empty
  after the load, or the sequence has at least one \<^verbatim>\<open>addToCart\<close>, \<^verbatim>\<open>removeFromCart\<close> or
  \<^verbatim>\<open>clearCart\<close>. A mutation that results in an empty collection writes nothing: it leaves the
  storage as it was (\<^verbatim>\<open>updateQuantity\<close>) or deletes both keys (\<^verbatim>\<open>removeFromCart\<close>, \<^verbatim>\<open>clearCart\<close>).
\<close>

theorem slot_invariant_after_load:
  "mount R t0 st = Loaded s \<Longrightarrow>
     ((items s \<noteq> [] \<or> slotEmpty (localStorage s) \<or> (\<exists>ev \<in> set evs. \<not> isUpdateQuantity (snd ev))) \<longrightarrow>
        slotInvariant R (run R evs s)) \<and>
     (items (step R (now, m) (run R evs s)) = [] \<longrightarrow>
        localStorage (step R (now, m) (run R evs s)) =
          (if isUpdateQuantity m then localStorage (run R evs s)
           else (localStorage (run R evs s))(CART_STORAGE_KEY := None, CART_TIMESTAMP_KEY := None)))"
proof (intro conjI impI)
  assume m: "mount R t0 st = Loaded s"
  assume h: "items s \<noteq> [] \<or> slotEmpty (localStorage s) \<or> (\<exists>ev \<in> set evs. \<not> isUpdateQuantity (snd ev))"
  from m have l: "\<not> isLoading s" by (rule mount_loaded)
  from h mount_loaded(2) [OF m]
  have "slotInvariant R s \<or> (\<exists>ev \<in> set evs. \<not> isUpdateQuantity (snd ev))"
    by (auto simp: slotInvariant_def)
  with l show "slotInvariant R (run R evs s)" by (rule run_slotInvariant)
next
  assume "items (step R (now, m) (run R evs s)) = []"
  then have "items (applyMutation m (run R evs s)) = []" by (simp add: items_step)
  then show "localStorage (step R (now, m) (run R evs s)) =
      (if isUpdateQuantity m then localStorage (run R evs s)
       else (localStorage (run R evs s))(CART_STORAGE_KEY := None, CART_TIMESTAMP_KEY := None))"
    by (rule step_empty_storage)
qed


lemma mount_example:
  "mount exampleRuntime 1700000060000
      [CART_STORAGE_KEY \<mapsto> exampleText, CART_TIMESTAMP_KEY \<mapsto> ''2023-11-14T22:13:20.000Z'']
     = Loaded \<lparr>items = [exampleItem], isLoading = False,
            localStorage = [CART_STORAGE_KEY \<mapsto> exampleText,
                            CART_TIMESTAMP_KEY \<mapsto> ''2023-11-14T22:14:20.000Z'']\<rparr>"
proof -
  have n: "\<not> isExpired exampleRuntime 1700000060000
      ([CART_STORAGE_KEY \<mapsto> exampleText, CART_TIMESTAMP_KEY \<mapsto> ''2023-11-14T22:13:20.000Z'']
        CART_TIMESTAMP_KEY)"
    by (simp add: isExpired_def expired_iff exampleRuntime_def)
  have l: "loadCartData exampleRuntime 1700000060000
      (initialState [CART_STORAGE_KEY \<mapsto> exampleText, CART_TIMESTAMP_KEY \<mapsto> ''2023-11-14T22:13:20.000Z''])
     = Loaded \<lparr>items = [exampleItem], isLoading = False,
            localStorage = [CART_STORAGE_KEY \<mapsto> exampleText,
                            CART_TIMESTAMP_KEY \<mapsto> ''2023-11-14T22:13:20.000Z'']\<rparr>"
    using n loadCartData_parsed [where R = exampleRuntime and currentTime = 1700000060000
        and st = "[CART_STORAGE_KEY \<mapsto> exampleText, CART_TIMESTAMP_KEY \<mapsto> ''2023-11-14T22:13:20.000Z'']"
        and str = exampleText]
    by (simp add: example_parse exampleText_nonempty)
  have iso: "toISOString exampleRuntime 1700000060000 = ''2023-11-14T22:14:20.000Z''"
    by (simp add: exampleRuntime_def)
  have u: "[CART_STORAGE_KEY \<mapsto> exampleText, CART_TIMESTAMP_KEY \<mapsto> ''2023-11-14T22:13:20.000Z'']
      (CART_STORAGE_KEY \<mapsto> exampleText,
       CART_TIMESTAMP_KEY \<mapsto> ''2023-11-14T22:14:20.000Z'')
     = [CART_STORAGE_KEY \<mapsto> exampleText,
        CART_TIMESTAMP_KEY \<mapsto> ''2023-11-14T22:14:20.000Z'']"
    by (rule ext) simp
  show ?thesis
    by (simp add: mount_def l persistEffect_def setItem_def iso u example_stringify)
qed

theorem slot_invariant_after_load_witness:
  "mount exampleRuntime 1700000060000
      [CART_STORAGE_KEY \<mapsto> exampleText, CART_TIMESTAMP_KEY \<mapsto> ''2023-11-14T22:13:20.000Z'']
     = Loaded \<lparr>items = [exampleItem], isLoading = False,
            localStorage = [CART_STORAGE_KEY \<mapsto> exampleText,
                            CART_TIMESTAMP_KEY \<mapsto> ''2023-11-14T22:14:20.000Z'']\<rparr> \<and>
   slotInvariant exampleRuntime (run exampleRuntime [(1700000060000, UpdateQuantity ''1'' (Finite 3))]
      \<lparr>items = [exampleItem], isLoading = False,
       localStorage = [CART_STORAGE_KEY \<mapsto> exampleText,
                       CART_TIMESTAMP_KEY \<mapsto> ''2023-11-14T22:14:20.000Z'']\<rparr>) \<and>
   items (step exampleRuntime (1700000060000, RemoveFromCart ''1'')
      (run exampleRuntime [(1700000060000, UpdateQuantity ''1'' (Finite 3))]
        \<lparr>items = [exampleItem], isLoading = False,
         localStorage = [CART_STORAGE_KEY \<mapsto> exampleText,
                         CART_TIMESTAMP_KEY \<mapsto> ''2023-11-14T22:14:20.000Z'']\<rparr>)) = [] \<and>
   localStorage (step exampleRuntime (1700000060000, RemoveFromCart ''1'')
      (run exampleRuntime [(1700000060000, UpdateQuantity ''1'' (Finite 3))]
        \<lparr>items = [exampleItem], isLoading = False,
         localStorage = [CART_STORAGE_KEY \<mapsto> exampleText,
                         CART_TIMESTAMP_KEY \<mapsto> ''2023-11-14T22:14:20.000Z'']\<rparr>)) CART_STORAGE_KEY = None"
proof -
  have e: "items (step exampleRuntime (1700000060000, RemoveFromCart ''1'')
      (run exampleRuntime [(1700000060000, UpdateQuantity ''1'' (Finite 3))]
        \<lparr>items = [exampleItem], isLoading = False,
         localStorage = [CART_STORAGE_KEY \<mapsto> exampleText,
                         CART_TIMESTAMP_KEY \<mapsto> ''2023-11-14T22:14:20.000Z'']\<rparr>)) = []"
    by (simp add: items_step items_removeFromCart items_updateQuantity exampleItem_def)
  from slot_invariant_after_load [OF mount_example,
      of "[(1700000060000, UpdateQuantity ''1'' (Finite 3))]" 1700000060000 "RemoveFromCart ''1''"]
    mount_example e
  show ?thesis by simp
qed

text \<open>
  The claim C3 as the specification states it fails for a slot that the load found holding an
  empty list: the load leaves it, the collection is empty, and \<^verbatim>\<open>updateQuantity\<close> neither writes
  nor deletes, so the slot keeps an empty snapshot with a timestamp.
\<close>

theorem slot_invariant_counterexample:
  "mount exampleRuntime 1700000060000
      [CART_STORAGE_KEY \<mapsto> ''[]'', CART_TIMESTAMP_KEY \<mapsto> ''2023-11-14T22:13:20.000Z'']
     = Loaded \<lparr>items = [], isLoading = False,
            localStorage = [CART_STORAGE_KEY \<mapsto> ''[]'',
                            CART_TIMESTAMP_KEY \<mapsto> ''2023-11-14T22:13:20.000Z'']\<rparr> \<and>
   JSON_parse exampleRuntime ''[]'' = ParsedItems [] \<and>
   localStorage (run exampleRuntime [(1700000060000, UpdateQuantity ''1'' (Finite 2))]
      \<lparr>items = [], isLoading = False,
       localStorage = [CART_STORAGE_KEY \<mapsto> ''[]'',
                       CART_TIMESTAMP_KEY \<mapsto> ''2023-11-14T22:13:20.000Z'']\<rparr>)
     = [CART_STORAGE_KEY \<mapsto> ''[]'', CART_TIMESTAMP_KEY \<mapsto> ''2023-11-14T22:13:20.000Z''] \<and>
   \<not> slotInvariant exampleRuntime (run exampleRuntime [(1700000060000, UpdateQuantity ''1'' (Finite 2))]
      \<lparr>items = [], isLoading = False,
       localStorage = [CART_STORAGE_KEY \<mapsto> ''[]'',
                       CART_TIMESTAMP_KEY \<mapsto> ''2023-11-14T22:13:20.000Z'']\<rparr>)"
proof -
  have p: "JSON_parse exampleRuntime ''[]'' = ParsedItems []"
    by (rule example_parse)
  have n: "\<not> isExpired exampleRuntime 1700000060000
      ([CART_STORAGE_KEY \<mapsto> ''[]'', CART_TIMESTAMP_KEY \<mapsto> ''2023-11-14T22:13:20.000Z'']
        CART_TIMESTAMP_KEY)"
    by (simp add: isExpired_def expired_iff exampleRuntime_def)
  have l: "loadCartData exampleRuntime 1700000060000
      (initialState [CART_STORAGE_KEY \<mapsto> ''[]'', CART_TIMESTAMP_KEY \<mapsto> ''2023-11-14T22:13:20.000Z''])
     = Loaded \<lparr>items = [], isLoading = False,
            localStorage = [CART_STORAGE_KEY \<mapsto> ''[]'',
                            CART_TIMESTAMP_KEY \<mapsto> ''2023-11-14T22:13:20.000Z'']\<rparr>"
    using n loadCartData_parsed [where R = exampleRuntime and currentTime = 1700000060000
        and st = "[CART_STORAGE_KEY \<mapsto> ''[]'', CART_TIMESTAMP_KEY \<mapsto> ''2023-11-14T22:13:20.000Z'']"
        and str = "''[]''"]
    by (simp add: p)
  have m: "mount exampleRuntime 1700000060000
      [CART_STORAGE_KEY \<mapsto> ''[]'', CART_TIMESTAMP_KEY \<mapsto> ''2023-11-14T22:13:20.000Z'']
     = Loaded \<lparr>items = [], isLoading = False,
            localStorage = [CART_STORAGE_KEY \<mapsto> ''[]'',
                            CART_TIMESTAMP_KEY \<mapsto> ''2023-11-14T22:13:20.000Z'']\<rparr>"
    using l by (rule mount_empty) simp
  have r: "run exampleRuntime [(1700000060000, UpdateQuantity ''1'' (Finite 2))]
      \<lparr>items = [], isLoading = False,
       localStorage = [CART_STORAGE_KEY \<mapsto> ''[]'',
                       CART_TIMESTAMP_KEY \<mapsto> ''2023-11-14T22:13:20.000Z'']\<rparr>
     = \<lparr>items = [], isLoading = False,
       localStorage = [CART_STORAGE_KEY \<mapsto> ''[]'',
                       CART_TIMESTAMP_KEY \<mapsto> ''2023-11-14T22:13:20.000Z'']\<rparr>"
    by (simp add: step_def updateQuantity_def persistEffect_def)
  show ?thesis
    unfolding r using m p by (simp add: slotInvariant_def slotEmpty_def holdsSnapshot_def)
qed

section \<open>Round trip through the storage\<close>






end
